theory Spec2Isabelle
  imports Main "HOL-Library.Product_Lexorder" "HOL-Library.Sublist"
begin

section \<open>Text and the character tables of the runtime\<close>

text \<open>
  A Python \<open>str\<close> is a sequence of Unicode code points. A code point is a natural
  number and a text is a list of them; ASCII literals are written through \<open>asc\<close>.
\<close>

type_synonym ustr = "nat list"

definition asc :: "string \<Rightarrow> ustr" where
  "asc s = map of_char s"

text \<open>
  The regular expressions and string methods of the source consult the Unicode character
  database of the interpreter: \<open>\d\<close>, \<open>\w\<close>, \<open>\s\<close> (and \<open>str.isspace\<close>,
  \<open>str.split\<close>, \<open>str.strip\<close>), the case pairs of \<open>re.IGNORECASE\<close> and
  \<open>str.lower\<close>. The database is not part of the repository, so every function that
  depends on it takes it as a parameter.
\<close>

record ucd =
  u_digit :: "nat \<Rightarrow> bool"
  u_word :: "nat \<Rightarrow> bool"
  u_space :: "nat \<Rightarrow> bool"
  u_fold :: "nat \<Rightarrow> nat \<Rightarrow> bool"
  u_lower :: "ustr \<Rightarrow> ustr"

text \<open>
  The table used to run the functions on concrete texts. It agrees with Python's database
  on every code point below 256 and on U+2026 (the ellipsis); texts evaluated with it
  contain no other code point.
\<close>

definition l1_upper :: "nat \<Rightarrow> bool" where
  "l1_upper c = ((65 \<le> c \<and> c \<le> 90) \<or> (192 \<le> c \<and> c \<le> 214) \<or> (216 \<le> c \<and> c \<le> 222))"

definition l1_lower :: "nat \<Rightarrow> bool" where
  "l1_lower c = ((97 \<le> c \<and> c \<le> 122) \<or> (224 \<le> c \<and> c \<le> 246) \<or> (248 \<le> c \<and> c \<le> 254))"

definition l1_digit :: "nat \<Rightarrow> bool" where
  "l1_digit c = (48 \<le> c \<and> c \<le> 57)"

definition l1_word :: "nat \<Rightarrow> bool" where
  "l1_word c = (l1_digit c \<or> l1_upper c \<or> l1_lower c \<or> c = 95 \<or> c = 170 \<or> c = 178 \<or> c = 179
      \<or> c = 181 \<or> c = 185 \<or> c = 186 \<or> c = 188 \<or> c = 189 \<or> c = 190 \<or> c = 223 \<or> c = 255)"

definition l1_space :: "nat \<Rightarrow> bool" where
  "l1_space c = ((9 \<le> c \<and> c \<le> 13) \<or> (28 \<le> c \<and> c \<le> 32) \<or> c = 133 \<or> c = 160)"

definition l1_fold :: "nat \<Rightarrow> nat \<Rightarrow> bool" where
  "l1_fold a c = (c = a \<or> (l1_upper a \<and> c = a + 32) \<or> (l1_lower a \<and> a = c + 32))"

definition l1_lower_char :: "nat \<Rightarrow> nat" where
  "l1_lower_char c = (if l1_upper c then c + 32 else c)"

definition latin1 :: ucd where
  "latin1 = \<lparr>u_digit = l1_digit, u_word = l1_word, u_space = l1_space, u_fold = l1_fold,
     u_lower = map l1_lower_char\<rparr>"

section \<open>Regular expressions as the \<open>re\<close> module matches them\<close>

text \<open>
  The backtracking matcher of \<open>re\<close>: alternatives are tried left to right, quantifiers
  are greedy, and the first success wins. \<open>rmatch\<close> returns every way the expression
  can match at the current position, in the order the matcher tries them; a position is
  the previous code point (\<open>None\<close> at the start of the string) with the rest of the text.
  The flag is \<open>re.IGNORECASE\<close>. The body of a \<open>Star\<close> consumes at least one code
  point in each round, as every repetition in the source's patterns does.
\<close>

datatype citem = CChar nat | CRange nat nat | CDigit | CWord | CSpace

datatype rx = Cls "citem list" | NCls "citem list" | Eps | Seq rx rx | Alt rx rx | Opt rx
  | Star rx | WordB | Bol | Eol

type_synonym pos = "nat option \<times> ustr"

fun citem_match :: "ucd \<Rightarrow> bool \<Rightarrow> citem \<Rightarrow> nat \<Rightarrow> bool" where
  "citem_match U ic (CChar a) c = (c = a \<or> (ic \<and> u_fold U a c))"
| "citem_match U ic (CRange lo hi) c =
     ((lo \<le> c \<and> c \<le> hi) \<or> (ic \<and> list_ex (\<lambda>d. u_fold U d c) [lo..<Suc hi]))"
| "citem_match U ic CDigit c = u_digit U c"
| "citem_match U ic CWord c = u_word U c"
| "citem_match U ic CSpace c = u_space U c"

definition is_word_opt :: "ucd \<Rightarrow> nat option \<Rightarrow> bool" where
  "is_word_opt U p = (case p of None \<Rightarrow> False | Some c \<Rightarrow> u_word U c)"

definition next_char :: "ustr \<Rightarrow> nat option" where
  "next_char xs = (case xs of [] \<Rightarrow> None | x # _ \<Rightarrow> Some x)"

function rmatch :: "ucd \<Rightarrow> bool \<Rightarrow> rx \<Rightarrow> pos \<Rightarrow> pos list" where
  "rmatch U ic (Cls its) (p, xs) =
     (case xs of [] \<Rightarrow> [] | c # cs \<Rightarrow> if list_ex (\<lambda>it. citem_match U ic it c) its then [(Some c, cs)] else [])"
| "rmatch U ic (NCls its) (p, xs) =
     (case xs of [] \<Rightarrow> [] | c # cs \<Rightarrow> if list_ex (\<lambda>it. citem_match U ic it c) its then [] else [(Some c, cs)])"
| "rmatch U ic Eps (p, xs) = [(p, xs)]"
| "rmatch U ic (Seq a b) (p, xs) = concat (map (rmatch U ic b) (rmatch U ic a (p, xs)))"
| "rmatch U ic (Alt a b) (p, xs) = rmatch U ic a (p, xs) @ rmatch U ic b (p, xs)"
| "rmatch U ic (Opt a) (p, xs) = rmatch U ic a (p, xs) @ [(p, xs)]"
| "rmatch U ic (Star a) (p, xs) =
     concat (map (rmatch U ic (Star a))
       (filter (\<lambda>q. length (snd q) < length xs) (rmatch U ic a (p, xs)))) @ [(p, xs)]"
| "rmatch U ic WordB (p, xs) =
     (if is_word_opt U p \<noteq> is_word_opt U (next_char xs) then [(p, xs)] else [])"
| "rmatch U ic Bol (p, xs) = (if p = None then [(p, xs)] else [])"
| "rmatch U ic Eol (p, xs) = (if xs = [] \<or> xs = [10] then [(p, xs)] else [])"
  by pat_completeness auto
termination
  by (relation "measures [\<lambda>(U, ic, r, q). size r, \<lambda>(U, ic, r, q). length (snd q)]") auto

declare rmatch.simps(7) [simp del]


text \<open>Pattern constructors: \<open>\d{2}\<close> is \<open>rep 2 rdigit\<close>, \<open>\d{1,4}\<close> is
  \<open>rep_range 1 4 rdigit\<close>, \<open>\s+\<close> is \<open>plus rspace\<close>.\<close>

definition ch :: "char \<Rightarrow> rx" where
  "ch c = Cls [CChar (of_char c)]"

definition cp :: "nat \<Rightarrow> rx" where
  "cp c = Cls [CChar c]"

definition oneof :: "string \<Rightarrow> rx" where
  "oneof s = Cls (map (\<lambda>c. CChar (of_char c)) s)"

definition rng :: "char \<Rightarrow> char \<Rightarrow> rx" where
  "rng a b = Cls [CRange (of_char a) (of_char b)]"

definition rdigit :: rx where
  "rdigit = Cls [CDigit]"

definition rspace :: rx where
  "rspace = Cls [CSpace]"

definition rword :: rx where
  "rword = Cls [CWord]"

fun cat :: "rx list \<Rightarrow> rx" where
  "cat [] = Eps"
| "cat [r] = r"
| "cat (r # rs) = Seq r (cat rs)"

fun alts :: "rx list \<Rightarrow> rx" where
  "alts [] = Cls []"
| "alts [r] = r"
| "alts (r # rs) = Alt r (alts rs)"

definition lit :: "ustr \<Rightarrow> rx" where
  "lit s = cat (map cp s)"

definition plus :: "rx \<Rightarrow> rx" where
  "plus r = Seq r (Star r)"

fun rep :: "nat \<Rightarrow> rx \<Rightarrow> rx" where
  "rep 0 r = Eps"
| "rep (Suc 0) r = r"
| "rep (Suc n) r = Seq r (rep n r)"

fun rep_upto :: "nat \<Rightarrow> rx \<Rightarrow> rx" where
  "rep_upto 0 r = Eps"
| "rep_upto (Suc n) r = Opt (Seq r (rep_upto n r))"

definition rep_range :: "nat \<Rightarrow> nat \<Rightarrow> rx \<Rightarrow> rx" where
  "rep_range m n r = Seq (rep m r) (rep_upto (n - m) r)"

definition rep_min :: "nat \<Rightarrow> rx \<Rightarrow> rx" where
  "rep_min m r = Seq (rep m r) (Star r)"

text \<open>
  \<open>re.sub\<close>, \<open>re.subn\<close>, \<open>re.search\<close> and \<open>re.finditer\<close> scan the text from the
  left: at each position the first match in the matcher's order is taken and the scan goes
  on behind it, so matches never overlap. After an empty match the same position is tried
  once more for a non-empty match (Python 3.7 and later). \<open>scan\<close> cuts the text into the
  code points that are kept and the matches.
\<close>

datatype piece = Keep nat | Hit ustr

definition first_match :: "ucd \<Rightarrow> bool \<Rightarrow> rx \<Rightarrow> bool \<Rightarrow> pos \<Rightarrow> pos option" where
  "first_match U ic r ne q =
     find (\<lambda>q'. length (snd q') \<le> length (snd q) \<and> (ne \<longrightarrow> length (snd q') < length (snd q)))
       (rmatch U ic r q)"

function scan :: "ucd \<Rightarrow> bool \<Rightarrow> rx \<Rightarrow> bool \<Rightarrow> pos \<Rightarrow> piece list" where
  "scan U ic r ne (p, xs) =
     (case first_match U ic r ne (p, xs) of
        Some q \<Rightarrow>
          (if length (snd q) < length xs
           then Hit (take (length xs - length (snd q)) xs) # scan U ic r False q
           else if ne then [] else Hit [] # scan U ic r True (p, xs))
      | None \<Rightarrow>
          (case xs of [] \<Rightarrow> [] | x # xs' \<Rightarrow> Keep x # scan U ic r False (Some x, xs')))"
  by pat_completeness auto
termination
  by (relation "measures [\<lambda>(U, ic, r, ne, q). length (snd q), \<lambda>(U, ic, r, ne, q). if ne then 0 else 1]") auto

declare scan.simps [simp del]

fun piece_out :: "ustr \<Rightarrow> piece \<Rightarrow> ustr" where
  "piece_out repl (Keep c) = [c]"
| "piece_out repl (Hit m) = repl"


fun is_hit :: "piece \<Rightarrow> bool" where
  "is_hit (Keep c) = False"
| "is_hit (Hit m) = True"

definition re_sub :: "ucd \<Rightarrow> bool \<Rightarrow> rx \<Rightarrow> ustr \<Rightarrow> ustr \<Rightarrow> ustr" where
  "re_sub U ic r repl s = concat (map (piece_out repl) (scan U ic r False (None, s)))"

definition re_subn :: "ucd \<Rightarrow> bool \<Rightarrow> rx \<Rightarrow> ustr \<Rightarrow> ustr \<Rightarrow> ustr \<times> nat" where
  "re_subn U ic r repl s =
     (let ps = scan U ic r False (None, s)
      in (concat (map (piece_out repl) ps), length (filter is_hit ps)))"

definition re_search :: "ucd \<Rightarrow> bool \<Rightarrow> rx \<Rightarrow> ustr \<Rightarrow> bool" where
  "re_search U ic r s = list_ex is_hit (scan U ic r False (None, s))"

definition re_match :: "ucd \<Rightarrow> bool \<Rightarrow> rx \<Rightarrow> ustr \<Rightarrow> bool" where
  "re_match U ic r s = (rmatch U ic r (None, s) \<noteq> [])"

text \<open>The spans \<open>(start, end)\<close> and the matched texts of \<open>re.finditer\<close>.\<close>

fun spans :: "nat \<Rightarrow> piece list \<Rightarrow> (nat \<times> nat \<times> ustr) list" where
  "spans i [] = []"
| "spans i (Keep c # ps) = spans (Suc i) ps"
| "spans i (Hit m # ps) = (i, i + length m, m) # spans (i + length m) ps"

definition re_finditer :: "ucd \<Rightarrow> bool \<Rightarrow> rx \<Rightarrow> ustr \<Rightarrow> (nat \<times> nat \<times> ustr) list" where
  "re_finditer U ic r s = spans 0 (scan U ic r False (None, s))"

section \<open>text_processing.py: date and time masking\<close>

definition day_rx :: rx where
  "day_rx = alts [Seq (Opt (ch CHR ''0'')) (rng CHR ''1'' CHR ''9''),
                  Seq (oneof ''12'') rdigit,
                  Seq (ch CHR ''3'') (oneof ''01'')]"

definition month_num_rx :: rx where
  "month_num_rx = Alt (Seq (ch CHR ''0'') (rng CHR ''1'' CHR ''9'')) (Seq (ch CHR ''1'') (rng CHR ''0'' CHR ''2''))"

definition year_rx :: rx where
  "year_rx = Seq (Alt (lit (asc ''19'')) (lit (asc ''20''))) (rep 2 rdigit)"

definition swedish_months_long :: rx where
  "swedish_months_long = alts (map (\<lambda>m. lit (asc m))
     [''januari'', ''februari'', ''mars'', ''april'', ''maj'', ''juni'', ''juli'', ''augusti'',
      ''september'', ''oktober'', ''november'', ''december''])"

definition swedish_months_short :: rx where
  "swedish_months_short = alts (map (\<lambda>m. lit (asc m))
     [''jan'', ''feb'', ''mar'', ''apr'', ''maj'', ''jun'', ''jul'', ''aug'', ''sep'', ''sept'',
      ''okt'', ''nov'', ''dec''])"

definition iso_date_rx :: rx where
  "iso_date_rx = cat [WordB, year_rx, oneof ''-/'', month_num_rx, oneof ''-/'',
     alts [Seq (ch CHR ''0'') (rng CHR ''1'' CHR ''9''), Seq (oneof ''12'') rdigit,
           Seq (ch CHR ''3'') (oneof ''01'')], WordB]"

definition dmy_date_rx :: rx where
  "dmy_date_rx = cat [WordB, day_rx, ch CHR ''/'',
     Alt (Seq (Opt (ch CHR ''0'')) (rng CHR ''1'' CHR ''9'')) (Seq (ch CHR ''1'') (rng CHR ''0'' CHR ''2'')),
     ch CHR ''/'', year_rx, WordB]"

definition long_month_year_rx :: rx where
  "long_month_year_rx = cat [WordB, day_rx, plus rspace, swedish_months_long, plus rspace, year_rx, WordB]"

definition short_month_year_rx :: rx where
  "short_month_year_rx = cat [WordB, day_rx, plus rspace, swedish_months_short, Opt (ch CHR ''.''),
     plus rspace, year_rx, WordB]"

definition long_month_rx :: rx where
  "long_month_rx = cat [WordB, day_rx, plus rspace, swedish_months_long, WordB]"

definition clock_rx :: rx where
  "clock_rx = cat [WordB, Opt (cat [lit (asc ''kl''), Opt (ch CHR ''.''), plus rspace]),
     alts [Seq (Opt (ch CHR ''0'')) (rng CHR ''0'' CHR ''9''), Seq (ch CHR ''1'') rdigit,
           Seq (ch CHR ''2'') (rng CHR ''0'' CHR ''3'')],
     oneof '':.'', Seq (rng CHR ''0'' CHR ''5'') rdigit, WordB]"

text \<open>The eight relative words of the source (yesterday, today, tomorrow, with and
  without a space, the day before yesterday, the day after tomorrow); 229 is a with ring,
  246 is o with diaeresis.\<close>

definition relative_time_words :: rx where
  "relative_time_words = cat [WordB,
     alts (map lit [asc ''ig'' @ [229] @ asc ''r'', asc ''idag'', asc ''imorgon'',
                    asc ''i g'' @ [229] @ asc ''r'', asc ''i dag'', asc ''i morgon'',
                    asc ''f'' @ [246] @ asc ''rrg'' @ [229] @ asc ''r'',
                    [246] @ asc ''vermorgon'']), WordB]"

record dt_stats =
  datetime_masked :: bool
  datetime_mask_count :: nat

text \<open>The six substitutions of \<open>mask_datetime\<close> in their order, each with its flag and
  its token; the seventh runs at level \<open>paranoid\<close> only.\<close>

definition datetime_rules :: "(bool \<times> rx \<times> ustr) list" where
  "datetime_rules =
     [(False, iso_date_rx, asc ''[DATUM]''),
      (False, dmy_date_rx, asc ''[DATUM]''),
      (True, long_month_year_rx, asc ''[DATUM]''),
      (True, short_month_year_rx, asc ''[DATUM]''),
      (True, long_month_rx, asc ''[DATUM]''),
      (True, clock_rx, asc ''[TID]'')]"

definition relative_rule :: "bool \<times> rx \<times> ustr" where
  "relative_rule = (True, relative_time_words, asc ''[RELATIV_TID]'')"

fun apply_rules :: "ucd \<Rightarrow> (bool \<times> rx \<times> ustr) list \<Rightarrow> ustr \<times> nat \<Rightarrow> ustr \<times> nat" where
  "apply_rules U [] (t, k) = (t, k)"
| "apply_rules U ((ic, r, tok) # rs) (t, k) =
     (case re_subn U ic r tok t of (t', n) \<Rightarrow> apply_rules U rs (t', k + n))"

definition mask_datetime :: "ucd \<Rightarrow> ustr \<Rightarrow> ustr \<Rightarrow> ustr \<times> dt_stats" where
  "mask_datetime U t level =
     (case apply_rules U
        (if level = asc ''paranoid'' then datetime_rules @ [relative_rule] else datetime_rules) (t, 0)
      of (t', masked_count) \<Rightarrow>
        (t', \<lparr>datetime_masked = (masked_count > 0), datetime_mask_count = masked_count\<rparr>))"


section \<open>text_processing.py: paranoid masking and the PII gate\<close>

text \<open>\<open>str.split('\n')\<close> and \<open>'\n'.join\<close>; 10 is the line feed.\<close>

fun split_lines :: "ustr \<Rightarrow> ustr list" where
  "split_lines [] = [[]]"
| "split_lines (c # cs) =
     (if c = 10 then [] # split_lines cs
      else (case split_lines cs of l # ls \<Rightarrow> (c # l) # ls | [] \<Rightarrow> [[c]]))"

fun join_with :: "ustr \<Rightarrow> ustr list \<Rightarrow> ustr" where
  "join_with sep [] = []"
| "join_with sep [l] = l"
| "join_with sep (l # ls) = l @ sep @ join_with sep ls"

definition email_chars :: rx where
  "email_chars = Cls [CWord, CChar (of_char CHR ''.''), CChar (of_char CHR ''-'')]"

text \<open>\<open>\b[\w\.-]+@[\w\.-]+\.\w+\b\<close>, the pattern the masking levels use for e-mail.\<close>

definition email_pattern_mask :: rx where
  "email_pattern_mask = cat [WordB, plus email_chars, ch CHR ''@'', plus email_chars, ch CHR ''.'',
     plus rword, WordB]"

text \<open>\<open>https?://[^\s]+\<close>\<close>

definition url_pattern :: rx where
  "url_pattern = cat [lit (asc ''http''), Opt (ch CHR ''s''), lit (asc ''://''), plus (NCls [CSpace])]"

text \<open>The five role labels of the source (196 is A with diaeresis, 229 is a with ring,
  246 is o with diaeresis);
  each pattern is \<open>^label\s+(.+)\<close>, where the dot is any code point but the line feed.\<close>

definition name_labels :: "ustr list" where
  "name_labels = [asc ''S'' @ [246] @ asc ''kande'', asc ''Motpart'', asc ''Ombud'',
     asc ''R'' @ [196] @ asc ''TTEN'', asc ''R'' @ [229] @ asc ''dmannen'']"

definition name_label_pattern :: "ustr \<Rightarrow> rx" where
  "name_label_pattern l = cat [Bol, lit l, plus rspace, plus (NCls [CChar 10])]"

fun mask_name_line :: "ucd \<Rightarrow> ustr list \<Rightarrow> ustr \<Rightarrow> ustr" where
  "mask_name_line U [] line = line"
| "mask_name_line U (l # ls) line =
     (if re_match U True (name_label_pattern l) line
      then re_sub U True (name_label_pattern l) (l @ asc '' [NAME]'') line
      else mask_name_line U ls line)"

definition mask_text_paranoid :: "ucd \<Rightarrow> ustr \<Rightarrow> ustr" where
  "mask_text_paranoid U t0 =
     (let t1 = fst (mask_datetime U t0 (asc ''paranoid''));
          t2 = re_sub U True email_pattern_mask (asc ''[LINK]'') t1;
          t3 = re_sub U True url_pattern (asc ''[LINK]'') t2;
          t4 = re_sub U False rdigit (asc ''[NUM]'') t3
      in join_with [10] (map (mask_name_line U name_labels) (split_lines t4)))"

definition allowed_tokens :: "ustr list" where
  "allowed_tokens = map asc [''[PHONE]'', ''[EMAIL]'', ''[PERSONNUMMER]'', ''[ID]'', ''[REDACTED]'',
     ''[NUM]'', ''[LINK]'', ''[NAME]'']"

definition dash_or_space :: rx where
  "dash_or_space = oneof ''- ''"

definition personnummer_patterns :: "rx list" where
  "personnummer_patterns =
     [cat [WordB, Alt (lit (asc ''19'')) (lit (asc ''20'')), rep 6 rdigit, dash_or_space, rep 4 rdigit, WordB],
      cat [WordB, Alt (lit (asc ''19'')) (lit (asc ''20'')), rep 10 rdigit, WordB],
      cat [WordB, rep 6 rdigit, dash_or_space, rep 4 rdigit, WordB],
      cat [WordB, rep 10 rdigit, WordB]]"

definition birthdate_pattern :: rx where
  "birthdate_pattern = cat [WordB, year_rx, month_num_rx,
     alts [Seq (ch CHR ''0'') (rng CHR ''1'' CHR ''9''), Seq (oneof ''12'') rdigit,
           Seq (ch CHR ''3'') (oneof ''01'')], WordB]"

text \<open>\<open>\d{4}-\d{2}-\d{2}\<close>, looked for in the 20 code points around a birthdate match.\<close>

definition dashed_date_rx :: rx where
  "dashed_date_rx = cat [rep 4 rdigit, ch CHR ''-'', rep 2 rdigit, ch CHR ''-'', rep 2 rdigit]"

definition birthdate_hit :: "ucd \<Rightarrow> ustr \<Rightarrow> nat \<times> nat \<times> ustr \<Rightarrow> bool" where
  "birthdate_hit U sanitized m =
     (case m of (start, end, _) \<Rightarrow>
        (let context_start = start - 20;
             context_end = min (length sanitized) (end + 20);
             context = take (context_end - context_start) (drop context_start sanitized)
         in \<not> re_search U False dashed_date_rx context))"

text \<open>\<open>[\w\.-]+@[\w\.-]+\.\w+\<close>, the gate's pattern for e-mail: no word boundaries.\<close>

definition email_pattern_gate :: rx where
  "email_pattern_gate = cat [plus email_chars, ch CHR ''@'', plus email_chars, ch CHR ''.'', plus rword]"

definition phone_tail :: "rx list" where
  "phone_tail = [rep_range 2 3 rdigit, Opt dash_or_space, rep_range 2 3 rdigit, Opt dash_or_space,
     rep_range 2 4 rdigit]"

definition phone_patterns_gate :: "rx list" where
  "phone_patterns_gate =
     [cat ([lit (asc ''+46''), Star rspace, rep_range 1 2 rdigit, Opt dash_or_space] @ phone_tail),
      cat ([WordB, ch CHR ''0'', rep_range 1 2 rdigit, dash_or_space] @ phone_tail @ [WordB]),
      cat ([WordB, lit (asc ''07''), rdigit, dash_or_space] @ phone_tail @ [WordB])]"

text \<open>\<open>^(19|20)\d{2}-\d{2}-\d{2}$\<close>\<close>

definition iso_shape_rx :: rx where
  "iso_shape_rx = cat [Bol, year_rx, ch CHR ''-'', rep 2 rdigit, ch CHR ''-'', rep 2 rdigit, Eol]"

definition phone_hit :: "ucd \<Rightarrow> nat \<times> nat \<times> ustr \<Rightarrow> bool" where
  "phone_hit U m =
     (case m of (_, _, matched_text) \<Rightarrow>
        (let digit_count = length (re_sub U False (NCls [CDigit]) [] matched_text)
         in \<not> re_match U False iso_shape_rx matched_text \<and> digit_count \<ge> 7))"

definition id_label_patterns :: "rx list" where
  "id_label_patterns =
     [cat [lit (asc ''Dok.Id''), plus rspace, plus rdigit],
      cat [lit (asc ''ID:''), Star rspace, plus rdigit],
      cat [lit (asc ''Id:''), Star rspace, plus rdigit],
      cat [WordB, lit (asc ''ID''), plus rspace, plus rdigit]]"

definition long_number_pattern :: rx where
  "long_number_pattern = cat [WordB, rep_min 9 rdigit, WordB]"

definition gate_sanitized :: "ucd \<Rightarrow> ustr \<Rightarrow> ustr" where
  "gate_sanitized U t = fold (\<lambda>tok s. re_sub U True (lit tok) (asc ''[TOKEN]'') s) allowed_tokens t"

definition pii_gate_check :: "ucd \<Rightarrow> ustr \<Rightarrow> bool \<times> ustr list" where
  "pii_gate_check U t =
     (let sanitized = gate_sanitized U t;
          reasons =
            (if list_ex (\<lambda>r. re_search U False r sanitized) personnummer_patterns
             then [asc ''personnummer_detected''] else [])
          @ (if list_ex (birthdate_hit U sanitized) (re_finditer U False birthdate_pattern sanitized)
             then [asc ''birthdate_like_sequence_detected''] else [])
          @ (if re_search U True email_pattern_gate sanitized then [asc ''email_detected''] else [])
          @ (if list_ex (\<lambda>r. list_ex (phone_hit U) (re_finditer U False r sanitized)) phone_patterns_gate
             then [asc ''phone_detected''] else [])
          @ (if list_ex (\<lambda>r. re_search U True r sanitized) id_label_patterns
             then [asc ''unmasked_id_detected''] else [])
          @ (if re_search U False long_number_pattern sanitized then [asc ''long_number_detected''] else [])
      in (reasons = [], reasons))"

text \<open>\<open>mask_text\<close> dispatches on the level. The levels \<open>normal\<close> and \<open>strict\<close>
  are not needed below and are passed in.\<close>

definition mask_text :: "ucd \<Rightarrow> (ustr \<Rightarrow> ustr) \<Rightarrow> (ustr \<Rightarrow> ustr) \<Rightarrow> ustr \<Rightarrow> ustr \<Rightarrow> ustr" where
  "mask_text U mask_text_normal mask_text_strict t level =
     (if level = asc ''paranoid'' then mask_text_paranoid U t
      else if level = asc ''strict'' then mask_text_strict t
      else mask_text_normal t)"

section \<open>fortknox.py: policies\<close>

record knox_policy =
  policy_id :: ustr
  policy_version :: ustr
  ruleset_hash :: ustr
  mode :: ustr
  sanitize_min_level :: ustr
  quote_limit_words :: int
  date_strictness :: ustr
  max_bytes :: int

datatype py_error = ValueError ustr

definition get_policy :: "ustr \<Rightarrow> py_error + knox_policy" where
  "get_policy pid =
     (if pid = asc ''internal'' then
        Inr \<lparr>policy_id = asc ''internal'', policy_version = asc ''1.0'', ruleset_hash = asc ''internal_v1'',
             mode = asc ''internal'', sanitize_min_level = asc ''normal'', quote_limit_words = 8,
             date_strictness = asc ''relaxed'', max_bytes = 800000\<rparr>
      else if pid = asc ''external'' then
        Inr \<lparr>policy_id = asc ''external'', policy_version = asc ''1.0'', ruleset_hash = asc ''external_v1'',
             mode = asc ''external'', sanitize_min_level = asc ''strict'', quote_limit_words = 8,
             date_strictness = asc ''strict'', max_bytes = 300000\<rparr>
      else Inl (ValueError (asc ''Unknown policy_id: '' @ pid)))"

section \<open>fortknox.py: the re-identification guard\<close>

text \<open>\<open>str.strip()\<close> and \<open>str.split()\<close> without arguments work on whitespace.\<close>

definition py_strip :: "ucd \<Rightarrow> ustr \<Rightarrow> ustr" where
  "py_strip U t = rev (dropWhile (u_space U) (rev (dropWhile (u_space U) t)))"

fun split_runs :: "ucd \<Rightarrow> ustr \<Rightarrow> ustr list" where
  "split_runs U [] = [[]]"
| "split_runs U (c # cs) =
     (if u_space U c then [] # split_runs U cs
      else (case split_runs U cs of w # ws \<Rightarrow> (c # w) # ws | [] \<Rightarrow> [[c]]))"

definition py_split :: "ucd \<Rightarrow> ustr \<Rightarrow> ustr list" where
  "py_split U t = filter (\<lambda>w. w \<noteq> []) (split_runs U t)"

text \<open>Python's slice \<open>xs[a:b]\<close>, with negative indices counted from the end.\<close>

definition py_index :: "nat \<Rightarrow> int \<Rightarrow> nat" where
  "py_index n a = (if a < 0 then nat (int n + a) else min (nat a) n)"

definition py_slice :: "'a list \<Rightarrow> int \<Rightarrow> int \<Rightarrow> 'a list" where
  "py_slice xs a b = take (py_index (length xs) b - py_index (length xs) a) (drop (py_index (length xs) a) xs)"

text \<open>\<open>g in t\<close> on strings: \<open>g\<close> occurs in \<open>t\<close> as a contiguous run of code points.\<close>

fun py_in :: "ustr \<Rightarrow> ustr \<Rightarrow> bool" where
  "py_in g [] = (g = [])"
| "py_in g (c # cs) = (prefix g (c # cs) \<or> py_in g cs)"

definition normalize_text_for_n_gram :: "ucd \<Rightarrow> ustr \<Rightarrow> ustr" where
  "normalize_text_for_n_gram U t = py_strip U (re_sub U False (plus rspace) [32] (u_lower U t))"

definition n_grams_of :: "ustr list \<Rightarrow> int \<Rightarrow> ustr list" where
  "n_grams_of ws n =
     (if int (length ws) < n then []
      else map (\<lambda>i. join_with [32] (py_slice ws (int i) (int i + n))) [0 ..< nat (int (length ws) - n + 1)])"

definition create_n_grams :: "ucd \<Rightarrow> ustr \<Rightarrow> int \<Rightarrow> ustr list" where
  "create_n_grams U t n = n_grams_of (py_split U t) n"

text \<open>The source collects the n-grams in a set and stops at the first one found in the
  output; only whether one is found reaches the result.\<close>

definition all_input_n_grams :: "ucd \<Rightarrow> ustr list \<Rightarrow> int \<Rightarrow> ustr list" where
  "all_input_n_grams U input_texts n =
     concat (map (\<lambda>t. create_n_grams U (normalize_text_for_n_gram U t) n) input_texts)"

definition re_id_guard :: "ucd \<Rightarrow> ustr \<Rightarrow> ustr list \<Rightarrow> knox_policy \<Rightarrow> bool \<times> ustr list" where
  "re_id_guard U rendered_text input_texts policy =
     (let normalized_output = normalize_text_for_n_gram U rendered_text;
          n = quote_limit_words policy + 1;
          reasons = (if list_ex (\<lambda>n_gram. py_in n_gram normalized_output)
                          (all_input_n_grams U input_texts n)
                     then [asc ''quote_detected''] else [])
      in (reasons = [], reasons))"

section \<open>fortknox.py: breaking quoted n-grams\<close>

text \<open>The output is cut into segments by \<open>\s+|\S+\<close>; each segment carries
  \<open>s.isspace()\<close>. 8230 is the ellipsis that is inserted.\<close>

definition segment_rx :: rx where
  "segment_rx = Alt (plus rspace) (plus (NCls [CSpace]))"

definition isspace :: "ucd \<Rightarrow> ustr \<Rightarrow> bool" where
  "isspace U s = (s \<noteq> [] \<and> list_all (u_space U) s)"

definition segments :: "ucd \<Rightarrow> ustr \<Rightarrow> (ustr \<times> bool) list" where
  "segments U t = map (\<lambda>(_, _, s). (s, isspace U s)) (re_finditer U False segment_rx t)"

definition word_seg_idxs :: "(ustr \<times> bool) list \<Rightarrow> nat list" where
  "word_seg_idxs segs = filter (\<lambda>i. \<not> snd (segs ! i)) [0 ..< length segs]"

definition word_tokens :: "ucd \<Rightarrow> (ustr \<times> bool) list \<Rightarrow> ustr list" where
  "word_tokens U segs = map (\<lambda>i. u_lower U (fst (segs ! i))) (word_seg_idxs segs)"

definition find_ngram :: "ustr list \<Rightarrow> ustr list \<Rightarrow> int \<Rightarrow> nat option" where
  "find_ngram grams toks n =
     find (\<lambda>i. join_with [32] (py_slice toks (int i) (int i + n)) \<in> set grams)
       [0 ..< nat (int (length toks) - n + 1)]"

definition break_marker :: "(ustr \<times> bool) list" where
  "break_marker = [([32], True), ([8230], False), ([32], True)]"

text \<open>One round of the loop: where the marker goes (\<open>None\<close> when the loop leaves
  through \<open>break\<close>), and the segments after \<open>segs[k:k] = [" ", "\<dots>", " "]\<close>.\<close>

definition insert_seg_at :: "ucd \<Rightarrow> ustr list \<Rightarrow> int \<Rightarrow> (ustr \<times> bool) list \<Rightarrow> nat option" where
  "insert_seg_at U grams n segs =
     (let toks = word_tokens U segs in
      if int (length toks) < n then None
      else (case find_ngram grams toks n of
              None \<Rightarrow> None
            | Some found_i \<Rightarrow>
                (let cut = max 3 (n div 2);
                     insert_word_pos = nat (min (int found_i + cut) (int (length toks)))
                 in Some (if insert_word_pos \<ge> length (word_seg_idxs segs) then length segs
                          else word_seg_idxs segs ! insert_word_pos))))"

definition break_step :: "ucd \<Rightarrow> ustr list \<Rightarrow> int \<Rightarrow> (ustr \<times> bool) list \<Rightarrow> (ustr \<times> bool) list option" where
  "break_step U grams n segs =
     (case insert_seg_at U grams n segs of
        None \<Rightarrow> None
      | Some k \<Rightarrow> Some (take k segs @ break_marker @ drop k segs))"

primrec break_loop :: "ucd \<Rightarrow> ustr list \<Rightarrow> int \<Rightarrow> nat \<Rightarrow> (ustr \<times> bool) list \<Rightarrow> nat
    \<Rightarrow> (ustr \<times> bool) list \<times> nat" where
  "break_loop U grams n 0 segs breaks = (segs, breaks)"
| "break_loop U grams n (Suc k) segs breaks =
     (case break_step U grams n segs of
        None \<Rightarrow> (segs, breaks)
      | Some segs' \<Rightarrow> break_loop U grams n k segs' (breaks + 1))"

definition break_quote_ngrams :: "ucd \<Rightarrow> ustr \<Rightarrow> ustr list \<Rightarrow> knox_policy \<Rightarrow> nat \<Rightarrow> ustr \<times> nat" where
  "break_quote_ngrams U rendered_text input_texts policy max_breaks =
     (if rendered_text = [] then (rendered_text, 0)
      else if input_texts = [] then (rendered_text, 0)
      else if quote_limit_words policy = 0 then (rendered_text, 0)
      else (let n = quote_limit_words policy + 1;
                grams = all_input_n_grams U input_texts n
            in case break_loop U grams n max_breaks (segments U rendered_text) 0 of
                 (segs, breaks) \<Rightarrow> (concat (map fst segs), breaks)))"


section \<open>The matcher consumes a prefix\<close>















section \<open>Soundness of the quote guard\<close>

lemma py_in_iff: "py_in g t \<longleftrightarrow> (\<exists>ps ss. t = ps @ g @ ss)"
proof (induction t)
  case Nil
  then show ?case by auto
next
  case (Cons c cs)
  show ?case
  proof
    assume "py_in g (c # cs)"
    then consider "prefix g (c # cs)" | "py_in g cs" by auto
    then show "\<exists>ps ss. c # cs = ps @ g @ ss"
    proof cases
      case 1
      then obtain ss where "c # cs = g @ ss" by (auto simp: prefix_def)
      then have "c # cs = [] @ g @ ss" by simp
      then show ?thesis by blast
    next
      case 2
      with Cons obtain ps ss where "cs = ps @ g @ ss" by auto
      then have "c # cs = (c # ps) @ g @ ss" by simp
      then show ?thesis by blast
    qed
  next
    assume "\<exists>ps ss. c # cs = ps @ g @ ss"
    then obtain ps ss where e: "c # cs = ps @ g @ ss" by auto
    show "py_in g (c # cs)"
    proof (cases ps)
      case Nil
      with e have "prefix g (c # cs)" by (auto simp: prefix_def)
      then show ?thesis by simp
    next
      case (Cons p ps')
      with e have "cs = ps' @ g @ ss" by simp
      with Cons.IH have "py_in g cs" by blast
      then show ?thesis by simp
    qed
  qed
qed

lemma py_slice_window:
  "i + n \<le> length ws \<Longrightarrow> py_slice ws (int i) (int i + int n) = take n (drop i ws)"
proof -
  assume a: "i + n \<le> length ws"
  have "nat (int i + int n) = i + n" by linarith
  with a show ?thesis by (simp add: py_slice_def py_index_def min_def)
qed

lemma n_grams_of_window:
  assumes "i + n \<le> length ws"
  shows "join_with [32] (take n (drop i ws)) \<in> set (n_grams_of ws (int n))"
proof -
  have "i < nat (int (length ws) - int n + 1)" using assms by linarith
  moreover have "join_with [32] (py_slice ws (int i) (int i + int n)) = join_with [32] (take n (drop i ws))"
    using assms by (simp add: py_slice_window)
  ultimately show ?thesis using assms
    unfolding n_grams_of_def by (auto simp: image_iff intro!: bexI[of _ i])
qed

lemma n_grams_of_elem:
  assumes "g \<in> set (n_grams_of ws (int n))"
  shows "\<exists>i. i + n \<le> length ws \<and> g = join_with [32] (take n (drop i ws))"
proof -
  from assms have le: "n \<le> length ws" unfolding n_grams_of_def by (auto split: if_splits)
  from assms obtain i where i: "i < nat (int (length ws) - int n + 1)"
      and g: "g = join_with [32] (py_slice ws (int i) (int i + int n))"
    unfolding n_grams_of_def by (auto split: if_splits)
  from i le have "i + n \<le> length ws" by linarith
  with g show ?thesis by (auto simp: py_slice_window)
qed

text \<open>
  C4. Take any source text among the inputs and any \<open>quote_limit_words + 1\<close> consecutive
  words of its normalised form (lower case, whitespace collapsed), joined by single spaces.
  If that n-gram occurs as a contiguous run in the normalised candidate output, the guard
  returns \<open>pass = False\<close> with the reason \<open>quote_detected\<close>.
\<close>

theorem quote_guard_soundness:
  assumes "src \<in> set input_texts"
    and "0 \<le> quote_limit_words policy"
    and "i + nat (quote_limit_words policy + 1) \<le> length (py_split U (normalize_text_for_n_gram U src))"
    and "normalize_text_for_n_gram U rendered_text =
           ps @ join_with [32] (take (nat (quote_limit_words policy + 1))
                  (drop i (py_split U (normalize_text_for_n_gram U src)))) @ ss"
  shows "re_id_guard U rendered_text input_texts policy = (False, [asc ''quote_detected''])"
proof -
  let ?n = "nat (quote_limit_words policy + 1)"
  let ?g = "join_with [32] (take ?n (drop i (py_split U (normalize_text_for_n_gram U src))))"
  have n: "int ?n = quote_limit_words policy + 1" using assms(2) by simp
  have "?g \<in> set (create_n_grams U (normalize_text_for_n_gram U src) (int ?n))"
    unfolding create_n_grams_def using assms(3) by (rule n_grams_of_window)
  then have "?g \<in> set (all_input_n_grams U input_texts (quote_limit_words policy + 1))"
    using assms(1) n unfolding all_input_n_grams_def by auto
  moreover have "py_in ?g (normalize_text_for_n_gram U rendered_text)"
    using assms(4) py_in_iff by blast
  ultimately have "list_ex (\<lambda>g. py_in g (normalize_text_for_n_gram U rendered_text))
      (all_input_n_grams U input_texts (quote_limit_words policy + 1))"
    unfolding list_ex_iff by blast
  then show ?thesis unfolding re_id_guard_def by (simp add: Let_def asc_def)
qed

section \<open>Breaking quoted n-grams\<close>









section \<open>Date and time masking on the reference input\<close>

text \<open>
  C8 (as the code has it). On the input "M\<open>\<ouml>\<close>te 2026-01-06 13:24." at level
  \<open>strict\<close>, \<open>mask_datetime\<close> returns the text "M\<open>\<ouml>\<close>te [DATUM] [TID]." and
  reports two substitutions: the tokens are the Swedish \<open>[DATUM]\<close> and \<open>[TID]\<close>.
\<close>

theorem mask_datetime_reference_input:
  "mask_datetime latin1 ([77, 246] @ asc ''te 2026-01-06 13:24.'') (asc ''strict'')
     = ([77, 246] @ asc ''te [DATUM] [TID].'', \<lparr>datetime_masked = True, datetime_mask_count = 2\<rparr>)
   \<and> datetime_mask_count (snd (mask_datetime latin1 ([77, 246] @ asc ''te 2026-01-06 13:24.'') (asc ''strict''))) \<ge> 2"
  by code_simp

text \<open>
  C8 as stated fails: the masked text is not "M\<open>\<ouml>\<close>te [DATE] [TIME].".
\<close>

theorem mask_datetime_reference_input_not_english_tokens:
  "fst (mask_datetime latin1 ([77, 246] @ asc ''te 2026-01-06 13:24.'') (asc ''strict''))
     \<noteq> [77, 246] @ asc ''te [DATE] [TIME].''"
  by code_simp

section \<open>Paranoid masking against the PII gate\<close>

text \<open>
  C1 at a failing input. The text "...@example.com" is left unchanged by paranoid masking
  (the e-mail pattern of the masking needs a word boundary in front of the local part,
  and there is none before a dot), while the gate's pattern has no such anchor and
  reports \<open>email_detected\<close>.
\<close>

theorem paranoid_fails_gate_on_dotted_local_part:
  "mask_text latin1 mask_text_normal mask_text_strict (asc ''...@example.com'') (asc ''paranoid'')
     = asc ''...@example.com''
   \<and> pii_gate_check latin1
       (mask_text latin1 mask_text_normal mask_text_strict (asc ''...@example.com'') (asc ''paranoid''))
     = (False, [asc ''email_detected''])"
  by code_simp

section \<open>The quote guard and the repair on concrete texts\<close>

theorem quote_guard_soundness_witness:
  "asc ''Du ser en bil och  en buss i dag'' \<in> set [asc ''Du ser en bil och  en buss i dag'']
   \<and> 0 \<le> quote_limit_words (projr (get_policy (asc ''external'')))
   \<and> re_id_guard latin1 (asc ''Ja: du ser en bil och en buss i dag!'')
         [asc ''Du ser en bil och  en buss i dag''] (projr (get_policy (asc ''external'')))
       = (False, [asc ''quote_detected''])"
proof -
  let ?P = "projr (get_policy (asc ''external''))"
  let ?src = "asc ''Du ser en bil och  en buss i dag''"
  have q: "quote_limit_words ?P = 8" by (simp add: get_policy_def asc_def)
  have ws: "py_split latin1 (normalize_text_for_n_gram latin1 ?src)
      = map asc [''du'', ''ser'', ''en'', ''bil'', ''och'', ''en'', ''buss'', ''i'', ''dag'']"
    by code_simp
  have out: "normalize_text_for_n_gram latin1 (asc ''Ja: du ser en bil och en buss i dag!'')
      = asc ''ja: '' @ asc ''du ser en bil och en buss i dag'' @ asc ''!''"
    by code_simp
  have g: "join_with [32] (take (nat (quote_limit_words ?P + 1))
        (drop 0 (py_split latin1 (normalize_text_for_n_gram latin1 ?src))))
      = asc ''du ser en bil och en buss i dag''"
    unfolding ws q by (simp add: asc_def)
  have h1: "?src \<in> set [?src]" by simp
  have h2: "0 \<le> quote_limit_words ?P" unfolding q by simp
  have h3: "0 + nat (quote_limit_words ?P + 1) \<le> length (py_split latin1 (normalize_text_for_n_gram latin1 ?src))"
    unfolding ws q by simp
  have h4: "normalize_text_for_n_gram latin1 (asc ''Ja: du ser en bil och en buss i dag!'') =
      asc ''ja: '' @ join_with [32] (take (nat (quote_limit_words ?P + 1))
        (drop 0 (py_split latin1 (normalize_text_for_n_gram latin1 ?src)))) @ asc ''!''"
    unfolding g by (rule out)
  from quote_guard_soundness[OF h1 h2 h3 h4] h1 h2 show ?thesis by blast
qed

text \<open>
  C10. With the external policy (n-grams of nine words), the source
  "Du ser en bil och en buss i dag" and the candidate "Kudu ser en bil och en buss i dagar.":
  the guard reports \<open>quote_detected\<close>, because the source n-gram is a substring of the
  normalised candidate that starts inside "kudu" and ends inside "dagar."; none of the
  candidate's own nine-word n-grams is a source n-gram; and \<open>break_quote_ngrams\<close> with
  twelve attempts finds nothing to break and returns the candidate unchanged.
\<close>

theorem guard_matches_inside_words:
  "re_id_guard latin1 (asc ''Kudu ser en bil och en buss i dagar.'')
       [asc ''Du ser en bil och en buss i dag''] (projr (get_policy (asc ''external'')))
     = (False, [asc ''quote_detected''])
   \<and> filter (\<lambda>g. g \<in> set (all_input_n_grams latin1 [asc ''Du ser en bil och en buss i dag''] 9))
        (create_n_grams latin1 (normalize_text_for_n_gram latin1 (asc ''Kudu ser en bil och en buss i dagar.'')) 9) = []
   \<and> break_quote_ngrams latin1 (asc ''Kudu ser en bil och en buss i dagar.'')
       [asc ''Du ser en bil och en buss i dag''] (projr (get_policy (asc ''external''))) 12
     = (asc ''Kudu ser en bil och en buss i dagar.'', 0)"
  by code_simp



end
